theory Spec2Isabelle
  imports Main
begin

section \<open>Python strings: \<open>str.strip\<close> and \<open>int\<close>\<close>

text \<open>
  A Python \<open>str\<close> is a sequence of code points. The model takes the code points
  U+0000 to U+00FF, one \<^typ>\<open>char\<close> each (so \<^term>\<open>length\<close> counts what Python's
  \<open>len\<close> counts), and a \<open>str\<close> is a \<^typ>\<open>string\<close>. The two built-ins that
  \<open>parse_form_data\<close> calls are modelled on that range as CPython defines them.

  \<open>str.isspace\<close> holds of U+0009 to U+000D, U+001C to U+0020, U+0085 and U+00A0.
\<close>

definition isspace :: "char \<Rightarrow> bool" where
  "isspace c =
     (let n = (of_char c :: nat)
      in (9 \<le> n \<and> n \<le> 13) \<or> (28 \<le> n \<and> n \<le> 32) \<or> n = 133 \<or> n = 160)"

text \<open>\<open>s.strip()\<close>: the leading and the trailing run of whitespace are removed.\<close>

definition strip :: "string \<Rightarrow> string" where
  "strip s = rev (dropWhile isspace (rev (dropWhile isspace s)))"

text \<open>
  \<open>int(s)\<close> for a \<open>str\<close> first maps the string to ASCII: a code point below 127 is
  kept, a whitespace code point becomes a blank, a decimal digit of another script
  becomes its ASCII digit and anything else ends the conversion with \<open>ValueError\<close>.
  No code point from U+007F to U+00FF is a decimal digit.
\<close>

definition to_ascii :: "char \<Rightarrow> char option" where
  "to_ascii c =
     (if (of_char c :: nat) < 127 then Some c
      else if isspace c then Some (CHR '' '')
      else None)"

text \<open>The C locale's \<open>isspace\<close>, which the integer parser skips: tab to carriage return, and blank.\<close>

definition c_isspace :: "char \<Rightarrow> bool" where
  "c_isspace c = (let n = (of_char c :: nat) in (9 \<le> n \<and> n \<le> 13) \<or> n = 32)"

definition digit_val :: "char \<Rightarrow> nat option" where
  "digit_val c =
     (let n = (of_char c :: nat) in if 48 \<le> n \<and> n \<le> 57 then Some (n - 48) else None)"

text \<open>
  The scanning loop of the parser: digits and underscores are read, the digits
  collected; two underscores in a row and an underscore at the end of the run are
  syntax errors (\<open>None\<close>). \<open>prev\<close> says that the character before was an underscore.
  The result is the digits read and the rest of the input.
\<close>

fun scan_digits :: "bool \<Rightarrow> nat list \<Rightarrow> string \<Rightarrow> (nat list \<times> string) option" where
  "scan_digits prev ds [] = (if prev then None else Some (ds, []))"
| "scan_digits prev ds (c # cs) =
     (if c = CHR ''_'' then (if prev then None else scan_digits True ds cs)
      else (case digit_val c of
              Some d \<Rightarrow> scan_digits False (ds @ [d]) cs
            | None \<Rightarrow> (if prev then None else Some (ds, c # cs))))"

definition digits_value :: "nat list \<Rightarrow> nat" where
  "digits_value ds = foldl (\<lambda>a d. 10 * a + d) 0 ds"

text \<open>
  \<open>int(s)\<close> in base 10: leading whitespace, one optional sign, a run of digits with
  single underscores between them (not empty, not starting with an underscore),
  trailing whitespace, and nothing else. A run of more than 640 digits is checked
  against the interpreter's limit \<open>max_str_digits\<close> (4300 unless configured, 0 for
  no limit) and is a \<open>ValueError\<close> beyond it. \<open>None\<close> is \<open>ValueError\<close>.
\<close>

definition py_int :: "nat \<Rightarrow> string \<Rightarrow> int option" where
  "py_int max_str_digits s =
     (case those (map to_ascii s) of
        None \<Rightarrow> None
      | Some t \<Rightarrow>
          (let t1 = dropWhile c_isspace t;
               neg = (case t1 of [] \<Rightarrow> False | c # _ \<Rightarrow> c = CHR ''-'');
               t2 = (case t1 of [] \<Rightarrow> []
                     | c # r \<Rightarrow> if c = CHR ''+'' \<or> c = CHR ''-'' then r else t1)
           in (case t2 of
                 [] \<Rightarrow> None
               | c # _ \<Rightarrow>
                   if c = CHR ''_'' then None
                   else (case scan_digits False [] t2 of
                           None \<Rightarrow> None
                         | Some (ds, rest) \<Rightarrow>
                             if ds = [] then None
                             else if dropWhile c_isspace rest \<noteq> [] then None
                             else if 640 < length ds \<and> 0 < max_str_digits
                                       \<and> max_str_digits < length ds then None
                             else Some (if neg then - int (digits_value ds)
                                        else int (digits_value ds))))))"

section \<open>The form's data and state\<close>

record RegistrationData =
  first_name :: string
  last_name :: string
  email :: string
  age :: int
  comments :: string

text \<open>
  The exceptions that leave \<open>parse_form_data\<close>: the \<open>ValueError\<close> it raises with a
  message, and the \<open>KeyError\<close> of a label that the dictionary does not have.
\<close>

datatype error = ValueError string | KeyError string

text \<open>The three messages; the specification's names for the failures they report.\<close>

definition MissingRequiredField :: error where
  "MissingRequiredField =
     ValueError (''Bitte f'' @ [CHR 0xFC] @ ''llen Sie alle Pflichtfelder aus.'')"

definition InvalidEmailFormat :: error where
  "InvalidEmailFormat =
     ValueError (''Bitte geben Sie eine g'' @ [CHR 0xFC] @ ''ltige E-Mail-Adresse ein.'')"

definition InvalidAge :: error where
  "InvalidAge = ValueError ''Alter muss eine positive Zahl sein.''"

text \<open>A modal dialog of \<open>messagebox\<close>, with its title and message.\<close>

datatype dialog = ShowError string string | ShowInfo string string

text \<open>
  The state the functions work on: \<open>variables\<close> is the dictionary from a label to
  the text of its \<open>StringVar\<close>, \<open>text_widget\<close> is what the user typed into the comments
  widget of the frame, \<open>dialogs\<close> are the dialogs shown so far, oldest first.
\<close>

record gui =
  variables :: "string \<rightharpoonup> string"
  text_widget :: string
  dialogs :: "dialog list"

text \<open>
  A function that reads or changes the widgets takes the state and returns its
  result, or the exception it raised, with the state it leaves.
\<close>

type_synonym 'a action = "gui \<Rightarrow> (error + 'a) \<times> gui"

definition return_action :: "'a \<Rightarrow> 'a action" where
  "return_action x g = (Inr x, g)"

definition raise_action :: "error \<Rightarrow> 'a action" where
  "raise_action e g = (Inl e, g)"

definition then_action :: "'a action \<Rightarrow> ('a \<Rightarrow> 'b action) \<Rightarrow> 'b action" where
  "then_action m f g = (case m g of (Inl e, g') \<Rightarrow> (Inl e, g') | (Inr x, g') \<Rightarrow> f x g')"

text \<open>\<open>variables[label].get()\<close>: the text of the variable, \<open>KeyError\<close> without the label.\<close>

definition StringVar_get :: "string \<Rightarrow> string action" where
  "StringVar_get label g =
     (case variables g label of
        None \<Rightarrow> raise_action (KeyError label) g
      | Some v \<Rightarrow> return_action v g)"

text \<open>
  \<open>comments_frame.text_widget.get("1.0", END)\<close>: the widget's content, which Tk ends
  with a newline of its own.
\<close>

definition Text_get :: "string action" where
  "Text_get g = return_action (text_widget g @ [CHR 0x0A]) g"

text \<open>\<open>comments_frame.text_widget.delete("1.0", END)\<close>: what the user typed is removed.\<close>

definition Text_delete :: "unit action" where
  "Text_delete g = (Inr (), g\<lparr>text_widget := []\<rparr>)"

definition showerror :: "string \<Rightarrow> string \<Rightarrow> unit action" where
  "showerror title msg g = (Inr (), g\<lparr>dialogs := dialogs g @ [ShowError title msg]\<rparr>)"

definition showinfo :: "string \<Rightarrow> string \<Rightarrow> unit action" where
  "showinfo title msg g = (Inr (), g\<lparr>dialogs := dialogs g @ [ShowInfo title msg]\<rparr>)"

section \<open>Validation and submission\<close>

text \<open>
  \<open>parse_form_data(variables, comments_frame)\<close>: the two arguments are the state. The
  four variables are read in the order of the source, each lookup raising \<open>KeyError\<close>
  for a missing label, then the comments widget; every text is stripped. The three
  checks follow in the order of the source, each raising its \<open>ValueError\<close>; the
  \<open>ValueError\<close> of \<open>int\<close> and the one raised for a value that is not positive are both
  caught and replaced by the message about the age. \<open>max_str_digits\<close> is the
  interpreter's setting that \<open>int\<close> reads.
\<close>

definition parse_form_data :: "nat \<Rightarrow> RegistrationData action" where
  "parse_form_data max_str_digits =
     then_action (StringVar_get ''Vorname'') (\<lambda>raw_first_name.
     then_action (StringVar_get ''Nachname'') (\<lambda>raw_last_name.
     then_action (StringVar_get ''E-Mail'') (\<lambda>raw_email.
     then_action (StringVar_get ''Alter'') (\<lambda>raw_age.
     then_action Text_get (\<lambda>raw_comments.
       let first_name' = strip raw_first_name;
           last_name' = strip raw_last_name;
           email' = strip raw_email;
           age_text = strip raw_age;
           comments' = strip raw_comments
       in if \<not> list_all (\<lambda>s. s \<noteq> []) [first_name', last_name', email', age_text]
          then raise_action MissingRequiredField
          else if CHR ''@'' \<notin> set email' \<or> CHR ''.'' \<notin> set email'
          then raise_action InvalidEmailFormat
          else (case py_int max_str_digits age_text of
                  None \<Rightarrow> raise_action InvalidAge
                | Some age' \<Rightarrow>
                    if age' \<le> 0 then raise_action InvalidAge
                    else return_action
                           \<lparr>first_name = first_name', last_name = last_name',
                            email = email', age = age', comments = comments'\<rparr>))))))"

text \<open>
  \<open>reset_form\<close>: every variable of the dictionary is set to the empty string and the
  comments widget is emptied.
\<close>

definition reset_form :: "unit action" where
  "reset_form =
     then_action
       (\<lambda>g. (Inr (), g\<lparr>variables := (\<lambda>label. map_option (\<lambda>_. []) (variables g label))\<rparr>))
       (\<lambda>_. Text_delete)"

definition success_message :: "RegistrationData \<Rightarrow> string" where
  "success_message data =
     ''Vielen Dank, '' @ first_name data @ '' '' @ last_name data @ ''!''
       @ [CHR 0x0A, CHR 0x0A]
       @ ''Wir haben Ihre Daten erhalten und melden uns unter '' @ email data @ ''.''"

text \<open>
  \<open>handle_submit\<close> catches \<open>ValueError\<close> only: it shows the message and returns. Any
  other exception leaves it. After a success it shows the confirmation and resets.
\<close>

definition handle_submit :: "nat \<Rightarrow> unit action" where
  "handle_submit max_str_digits g =
     (case parse_form_data max_str_digits g of
        (Inl (ValueError msg), g') \<Rightarrow> showerror ''Fehler'' msg g'
      | (Inl (KeyError k), g') \<Rightarrow> (Inl (KeyError k), g')
      | (Inr data, g') \<Rightarrow>
          then_action (showinfo ''Erfolg'' (success_message data)) (\<lambda>_. reset_form) g')"

section \<open>Concrete forms\<close>

text \<open>
  The form as \<open>build_form_fields\<close> and \<open>build_comments_field\<close> make it, with the
  four entries and the comments widget filled in and no dialog shown yet.
\<close>

definition filled_form :: "string \<Rightarrow> string \<Rightarrow> string \<Rightarrow> string \<Rightarrow> string \<Rightarrow> gui" where
  "filled_form vorname nachname e_mail alter kommentare =
     \<lparr>variables = [''Vorname'' \<mapsto> vorname, ''Nachname'' \<mapsto> nachname,
                   ''E-Mail'' \<mapsto> e_mail, ''Alter'' \<mapsto> alter],
      text_widget = kommentare, dialogs = []\<rparr>"

text \<open>The scenarios A to D of the specification.\<close>

definition scenario_A :: gui where
  "scenario_A = filled_form ''Anna'' ''Muster'' ''anna@example.com'' ''30'' []"

definition scenario_B :: gui where
  "scenario_B = filled_form ''Anna'' ''Muster'' ''anna@example.com'' ''-5'' []"

definition scenario_C :: gui where
  "scenario_C = filled_form ''Anna'' ''Muster'' ''annaexample.com'' ''30'' []"

definition scenario_D :: gui where
  "scenario_D = filled_form [] ''Muster'' ''anna@example.com'' ''30'' []"

section \<open>Facts about the built-ins\<close>

lemma errors_distinct:
  "MissingRequiredField \<noteq> InvalidEmailFormat"
  "MissingRequiredField \<noteq> InvalidAge"
  "InvalidEmailFormat \<noteq> InvalidAge"
  "InvalidEmailFormat \<noteq> MissingRequiredField"
  "InvalidAge \<noteq> MissingRequiredField"
  "InvalidAge \<noteq> InvalidEmailFormat"
  by (simp_all add: MissingRequiredField_def InvalidEmailFormat_def InvalidAge_def)

lemma newline_isspace: "isspace (CHR 0x0A)"
  by (simp add: isspace_def)

lemma dropWhile_all_Nil:
  assumes "\<forall>x\<in>set (dropWhile P xs). P x"
  shows "dropWhile P xs = []"
proof (rule ccontr)
  assume ne: "dropWhile P xs \<noteq> []"
  then have "\<not> P (hd (dropWhile P xs))"
    by (rule hd_dropWhile)
  moreover from ne have "hd (dropWhile P xs) \<in> set (dropWhile P xs)"
    by (rule hd_in_set)
  ultimately show False
    using assms by blast
qed

lemma strip_empty_iff: "strip s = [] \<longleftrightarrow> list_all isspace s"
proof
  assume "strip s = []"
  then have "\<forall>x\<in>set (dropWhile isspace s). isspace x"
    by (simp add: strip_def)
  then have "dropWhile isspace s = []"
    by (rule dropWhile_all_Nil)
  then show "list_all isspace s"
    by (simp add: list_all_iff)
next
  assume "list_all isspace s"
  then have d: "dropWhile isspace s = []"
    by (simp add: list_all_iff)
  show "strip s = []"
    unfolding strip_def d by simp
qed

lemma strip_newline: "strip (s @ [CHR 0x0A]) = strip s"
proof (cases "list_all isspace s")
  case True
  then have "list_all isspace (s @ [CHR 0x0A])"
    by (simp add: newline_isspace)
  with True show ?thesis
    by (simp only: strip_empty_iff [symmetric])
next
  case False
  then have "dropWhile isspace (s @ [CHR 0x0A]) = dropWhile isspace s @ [CHR 0x0A]"
    by (auto simp: list_all_iff dropWhile_append1)
  then show ?thesis
    by (simp add: strip_def newline_isspace)
qed

section \<open>Facts about validation\<close>

text \<open>
  \<open>parse_form_data\<close> written out: the four lookups in the order of the source, then the
  three rules, and the state returned as it was.
\<close>

lemma parse_form_data_unfold:
  "parse_form_data lim g =
     (case variables g ''Vorname'' of
        None \<Rightarrow> (Inl (KeyError ''Vorname''), g)
      | Some rf \<Rightarrow>
     (case variables g ''Nachname'' of
        None \<Rightarrow> (Inl (KeyError ''Nachname''), g)
      | Some rl \<Rightarrow>
     (case variables g ''E-Mail'' of
        None \<Rightarrow> (Inl (KeyError ''E-Mail''), g)
      | Some re \<Rightarrow>
     (case variables g ''Alter'' of
        None \<Rightarrow> (Inl (KeyError ''Alter''), g)
      | Some ra \<Rightarrow>
          if strip rf = [] \<or> strip rl = [] \<or> strip re = [] \<or> strip ra = []
          then (Inl MissingRequiredField, g)
          else if CHR ''@'' \<notin> set (strip re) \<or> CHR ''.'' \<notin> set (strip re)
          then (Inl InvalidEmailFormat, g)
          else (case py_int lim (strip ra) of
                  None \<Rightarrow> (Inl InvalidAge, g)
                | Some n \<Rightarrow>
                    if n \<le> 0 then (Inl InvalidAge, g)
                    else (Inr \<lparr>first_name = strip rf, last_name = strip rl,
                               email = strip re, age = n,
                               comments = strip (text_widget g)\<rparr>, g))))))"
  by (simp add: parse_form_data_def then_action_def StringVar_get_def Text_get_def
      return_action_def raise_action_def Let_def strip_newline split: option.splits)

lemma py_int_minus: "py_int lim (CHR ''-'' # r) = Some n \<Longrightarrow> n \<le> 0"
  by (auto simp: py_int_def to_ascii_def c_isspace_def Let_def
      split: option.splits list.splits if_splits prod.splits)

lemma py_int_zero: "py_int lim ''0'' = Some 0"
  by (simp add: py_int_def to_ascii_def c_isspace_def digit_val_def digits_value_def)

text \<open>With the four labels in the dictionary no \<open>KeyError\<close> is raised.\<close>

lemma filled_form_simps:
  "variables (filled_form a b c d e) ''Vorname'' = Some a"
  "variables (filled_form a b c d e) ''Nachname'' = Some b"
  "variables (filled_form a b c d e) ''E-Mail'' = Some c"
  "variables (filled_form a b c d e) ''Alter'' = Some d"
  "text_widget (filled_form a b c d e) = e"
  "dialogs (filled_form a b c d e) = []"
  by (simp_all add: filled_form_def)

lemma parse_form_data_present:
  assumes "variables g ''Vorname'' = Some rf" and "variables g ''Nachname'' = Some rl"
    and "variables g ''E-Mail'' = Some re" and "variables g ''Alter'' = Some ra"
  shows "fst (parse_form_data lim g) =
     (if strip rf = [] \<or> strip rl = [] \<or> strip re = [] \<or> strip ra = []
      then Inl MissingRequiredField
      else if CHR ''@'' \<notin> set (strip re) \<or> CHR ''.'' \<notin> set (strip re)
      then Inl InvalidEmailFormat
      else (case py_int lim (strip ra) of
              None \<Rightarrow> Inl InvalidAge
            | Some n \<Rightarrow>
                if n \<le> 0 then Inl InvalidAge
                else Inr \<lparr>first_name = strip rf, last_name = strip rl,
                          email = strip re, age = n,
                          comments = strip (text_widget g)\<rparr>))"
  using assms by (simp add: parse_form_data_unfold split: option.splits)

lemma parse_form_data_state: "snd (parse_form_data lim g) = g"
  by (simp add: parse_form_data_unfold split: option.splits)

lemma parse_form_data_agree:
  assumes "variables g ''Vorname'' = variables g' ''Vorname''"
    and "variables g ''Nachname'' = variables g' ''Nachname''"
    and "variables g ''E-Mail'' = variables g' ''E-Mail''"
    and "variables g ''Alter'' = variables g' ''Alter''"
  shows "fst (parse_form_data lim g) =
     (case fst (parse_form_data lim g') of
        Inl e \<Rightarrow> Inl e
      | Inr d \<Rightarrow> Inr (d\<lparr>comments := strip (text_widget g)\<rparr>))"
  by (simp add: parse_form_data_unfold assms split: option.splits)

lemma parse_form_data_comments:
  "fst (parse_form_data lim g) = Inr d \<Longrightarrow> comments d = strip (text_widget g)"
  by (auto simp: parse_form_data_unfold split: option.splits if_splits)

lemma parse_form_data_Inr_keys:
  assumes "fst (parse_form_data lim g) = Inr d"
  shows "variables g ''Vorname'' \<noteq> None \<and> variables g ''Nachname'' \<noteq> None
       \<and> variables g ''E-Mail'' \<noteq> None \<and> variables g ''Alter'' \<noteq> None"
  using assms by (auto simp: parse_form_data_unfold split: option.splits)

lemma strip_Nil: "strip [] = []"
  by (simp add: strip_def)

lemma strip_Anna: "strip ''  Anna  '' = ''Anna''"
  by (simp add: strip_def isspace_def)

lemma parse_scenario_A:
  "parse_form_data lim scenario_A =
     (Inr \<lparr>first_name = ''Anna'', last_name = ''Muster'', email = ''anna@example.com'',
           age = 30, comments = []\<rparr>, scenario_A)"
  by (simp add: parse_form_data_unfold scenario_A_def filled_form_def strip_def isspace_def
      py_int_def to_ascii_def c_isspace_def digit_val_def digits_value_def)

lemma parse_scenario_B: "parse_form_data lim scenario_B = (Inl InvalidAge, scenario_B)"
  by (simp add: parse_form_data_unfold scenario_B_def filled_form_def strip_def isspace_def
      py_int_def to_ascii_def c_isspace_def digit_val_def digits_value_def)

lemma reset_form_result:
  "reset_form h =
     (Inr (), h\<lparr>variables := (\<lambda>label. map_option (\<lambda>_. []) (variables h label)),
                text_widget := []\<rparr>)"
  by (simp add: reset_form_def then_action_def Text_delete_def)

text \<open>
  On a non-empty string of at most 640 ASCII digits \<open>int\<close> returns the number the
  string denotes in base 10, whatever the interpreter's limit is.
\<close>

lemma digit_val_char:
  assumes "digit_val c = Some d"
  shows "c \<noteq> CHR ''_''" and "c \<noteq> CHR ''+''" and "c \<noteq> CHR ''-''"
    and "\<not> c_isspace c" and "to_ascii c = Some c" and "d < 10"
  using assms
  by (auto simp: digit_val_def c_isspace_def to_ascii_def Let_def split: if_splits)

lemma scan_digits_decimal:
  "list_all (\<lambda>c. digit_val c \<noteq> None) cs \<Longrightarrow>
     scan_digits False ds cs = Some (ds @ map (the \<circ> digit_val) cs, [])"
proof (induction cs arbitrary: ds)
  case Nil
  then show ?case by simp
next
  case (Cons c cs)
  then obtain d where d: "digit_val c = Some d"
    by auto
  with Cons show ?case
    by (simp add: digit_val_char(1) [OF d])
qed

lemma those_to_ascii_decimal:
  "list_all (\<lambda>c. digit_val c \<noteq> None) cs \<Longrightarrow> those (map to_ascii cs) = Some cs"
proof (induction cs)
  case Nil
  then show ?case by simp
next
  case (Cons c cs)
  then obtain d where d: "digit_val c = Some d"
    by auto
  with Cons show ?case
    by (simp add: digit_val_char(5) [OF d])
qed

lemma py_int_decimal:
  assumes "s \<noteq> []" and "list_all (\<lambda>c. digit_val c \<noteq> None) s" and "length s \<le> 640"
  shows "py_int lim s = Some (int (digits_value (map (the \<circ> digit_val) s)))"
proof -
  from assms(1) obtain c cs where s: "s = c # cs"
    by (cases s) auto
  with assms(2) obtain d where d: "digit_val c = Some d"
    by auto
  have scan: "scan_digits False [] s = Some (map (the \<circ> digit_val) s, [])"
    using scan_digits_decimal [OF assms(2), of "[]"] by simp
  show ?thesis
    unfolding py_int_def those_to_ascii_decimal [OF assms(2)]
    using assms(3) scan
    by (simp add: s digit_val_char [OF d] d)
qed

section \<open>The claims\<close>

text \<open>
  Claim C1. The rules are decided in a fixed order and the first failure is the result:
  a required field that is empty after trimming gives \<open>MissingRequiredField\<close> whatever the
  e-mail and the age are; with the four fields present, a malformed e-mail gives
  \<open>InvalidEmailFormat\<close> whatever the age is, never \<open>InvalidAge\<close>; and \<open>InvalidEmailFormat\<close>
  and \<open>InvalidAge\<close> are only raised once the rules before them have passed.
\<close>
theorem validation_order:
  assumes "variables g ''Vorname'' = Some rf" and "variables g ''Nachname'' = Some rl"
    and "variables g ''E-Mail'' = Some re" and "variables g ''Alter'' = Some ra"
  shows "(strip rf = [] \<or> strip rl = [] \<or> strip re = [] \<or> strip ra = []
            \<longrightarrow> fst (parse_form_data lim g) = Inl MissingRequiredField)
       \<and> (strip rf \<noteq> [] \<and> strip rl \<noteq> [] \<and> strip re \<noteq> [] \<and> strip ra \<noteq> []
            \<and> (CHR ''@'' \<notin> set (strip re) \<or> CHR ''.'' \<notin> set (strip re))
            \<longrightarrow> fst (parse_form_data lim g) = Inl InvalidEmailFormat
                \<and> fst (parse_form_data lim g) \<noteq> Inl InvalidAge)
       \<and> (fst (parse_form_data lim g) = Inl InvalidEmailFormat
            \<longrightarrow> strip rf \<noteq> [] \<and> strip rl \<noteq> [] \<and> strip re \<noteq> [] \<and> strip ra \<noteq> [])
       \<and> (fst (parse_form_data lim g) = Inl InvalidAge
            \<longrightarrow> strip rf \<noteq> [] \<and> strip rl \<noteq> [] \<and> strip re \<noteq> [] \<and> strip ra \<noteq> []
                \<and> CHR ''@'' \<in> set (strip re) \<and> CHR ''.'' \<in> set (strip re))"
  by (simp add: parse_form_data_present [OF assms] errors_distinct split: option.splits)

theorem validation_order_witness:
  "fst (parse_form_data 4300 (filled_form ''   '' ''Muster'' ''annaexample.com'' ''-5'' []))
     = Inl MissingRequiredField
   \<and> fst (parse_form_data 4300 (filled_form ''Anna'' ''Muster'' ''annaexample.com'' ''-5'' []))
     = Inl InvalidEmailFormat
   \<and> fst (parse_form_data 4300 (filled_form ''Anna'' ''Muster'' ''annaexample.com'' ''-5'' []))
     \<noteq> Inl InvalidAge"
proof -
  let ?blank = "filled_form ''   '' ''Muster'' ''annaexample.com'' ''-5'' []"
  let ?both = "filled_form ''Anna'' ''Muster'' ''annaexample.com'' ''-5'' []"
  have blank: "strip ''   '' = []"
    by (simp add: strip_def isspace_def)
  have present: "strip ''Anna'' \<noteq> []" "strip ''Muster'' \<noteq> []"
    "strip ''annaexample.com'' \<noteq> []" "strip ''-5'' \<noteq> []"
    by (simp_all add: strip_def isspace_def)
  have no_at: "CHR ''@'' \<notin> set (strip ''annaexample.com'')"
    by (simp add: strip_def isspace_def)
  from validation_order [of ?blank, OF filled_form_simps(1-4), of 4300] blank
  have "fst (parse_form_data 4300 ?blank) = Inl MissingRequiredField"
    by blast
  moreover from validation_order [of ?both, OF filled_form_simps(1-4), of 4300] present no_at
  have "fst (parse_form_data 4300 ?both) = Inl InvalidEmailFormat
      \<and> fst (parse_form_data 4300 ?both) \<noteq> Inl InvalidAge"
    by blast
  ultimately show ?thesis
    by blast
qed

text \<open>
  Claim C2. With the four labels in the dictionary, validation fails with
  \<open>MissingRequiredField\<close> exactly when one of the four required fields is empty or holds
  whitespace only, which is when trimming leaves nothing of it. The comments widget is
  arbitrary here, so its content, empty or not, never triggers this failure.
\<close>
theorem missing_required_field_iff:
  assumes "variables g ''Vorname'' = Some rf" and "variables g ''Nachname'' = Some rl"
    and "variables g ''E-Mail'' = Some re" and "variables g ''Alter'' = Some ra"
  shows "(fst (parse_form_data lim g) = Inl MissingRequiredField)
           = (list_all isspace rf \<or> list_all isspace rl
               \<or> list_all isspace re \<or> list_all isspace ra)
       \<and> (list_all isspace rf = (strip rf = []))
       \<and> (list_all isspace rl = (strip rl = []))
       \<and> (list_all isspace re = (strip re = []))
       \<and> (list_all isspace ra = (strip ra = []))"
  by (simp add: parse_form_data_present [OF assms] errors_distinct InvalidAge_def
      InvalidEmailFormat_def MissingRequiredField_def strip_empty_iff split: option.splits)

theorem missing_required_field_witness:
  "fst (parse_form_data 4300 scenario_D) = Inl MissingRequiredField
   \<and> fst (parse_form_data 4300 scenario_A) \<noteq> Inl MissingRequiredField"
proof -
  have "list_all isspace []"
    by simp
  with missing_required_field_iff [of scenario_D "[]" "''Muster''" "''anna@example.com''" "''30''" 4300]
  have "fst (parse_form_data 4300 scenario_D) = Inl MissingRequiredField"
    by (simp add: scenario_D_def filled_form_simps)
  moreover have "\<not> list_all isspace ''Anna''" "\<not> list_all isspace ''Muster''"
    "\<not> list_all isspace ''anna@example.com''" "\<not> list_all isspace ''30''"
    by (simp_all add: isspace_def)
  with missing_required_field_iff [of scenario_A "''Anna''" "''Muster''" "''anna@example.com''" "''30''" 4300]
  have "fst (parse_form_data 4300 scenario_A) \<noteq> Inl MissingRequiredField"
    by (simp add: scenario_A_def filled_form_simps)
  ultimately show ?thesis
    by blast
qed

text \<open>
  Claim C3. When the four required fields are non-empty after trimming, validation fails
  with \<open>InvalidEmailFormat\<close> exactly when the trimmed e-mail lacks \<open>@\<close> or lacks a dot; an
  e-mail that has both, wherever they stand, passes this check.
\<close>
theorem invalid_email_format_iff:
  assumes "variables g ''Vorname'' = Some rf" and "variables g ''Nachname'' = Some rl"
    and "variables g ''E-Mail'' = Some re" and "variables g ''Alter'' = Some ra"
    and "strip rf \<noteq> []" and "strip rl \<noteq> []" and "strip re \<noteq> []" and "strip ra \<noteq> []"
  shows "(fst (parse_form_data lim g) = Inl InvalidEmailFormat)
           = (CHR ''@'' \<notin> set (strip re) \<or> CHR ''.'' \<notin> set (strip re))"
  using assms(5-8)
  by (simp add: parse_form_data_present [OF assms(1-4)] errors_distinct InvalidAge_def
      InvalidEmailFormat_def split: option.splits)

theorem invalid_email_format_witness:
  "fst (parse_form_data 4300 scenario_C) = Inl InvalidEmailFormat
   \<and> fst (parse_form_data 4300 (filled_form ''Anna'' ''Muster'' ''.@'' ''30'' []))
       \<noteq> Inl InvalidEmailFormat"
proof -
  let ?bad = "filled_form ''Anna'' ''Muster'' ''annaexample.com'' ''30'' []"
  let ?weak = "filled_form ''Anna'' ''Muster'' ''.@'' ''30'' []"
  have present: "strip ''Anna'' \<noteq> []" "strip ''Muster'' \<noteq> []"
    "strip ''annaexample.com'' \<noteq> []" "strip ''30'' \<noteq> []" "strip ''.@'' \<noteq> []"
    by (simp_all add: strip_def isspace_def)
  have no_at: "CHR ''@'' \<notin> set (strip ''annaexample.com'')"
    by (simp add: strip_def isspace_def)
  have both: "CHR ''@'' \<in> set (strip ''.@'')" "CHR ''.'' \<in> set (strip ''.@'')"
    by (simp_all add: strip_def isspace_def)
  have "fst (parse_form_data 4300 scenario_C) = Inl InvalidEmailFormat"
    unfolding scenario_C_def
    using invalid_email_format_iff [of ?bad, OF filled_form_simps(1-4) present(1,2,3,4), of 4300]
      no_at
    by blast
  moreover have "fst (parse_form_data 4300 ?weak) \<noteq> Inl InvalidEmailFormat"
    using invalid_email_format_iff [of ?weak, OF filled_form_simps(1-4) present(1,2,5,4), of 4300]
      both
    by blast
  ultimately show ?thesis
    by blast
qed

text \<open>
  Claim C4. When the required-field and the e-mail checks pass, validation fails with
  \<open>InvalidAge\<close> exactly when \<open>int\<close> raises on the trimmed age text or returns a value that
  is at most zero; the age text \<open>0\<close> and every age text with a leading minus sign give
  \<open>InvalidAge\<close>.
\<close>
theorem invalid_age_iff:
  assumes "variables g ''Vorname'' = Some rf" and "variables g ''Nachname'' = Some rl"
    and "variables g ''E-Mail'' = Some re" and "variables g ''Alter'' = Some ra"
    and "strip rf \<noteq> []" and "strip rl \<noteq> []" and "strip re \<noteq> []" and "strip ra \<noteq> []"
    and "CHR ''@'' \<in> set (strip re)" and "CHR ''.'' \<in> set (strip re)"
  shows "(fst (parse_form_data lim g) = Inl InvalidAge)
           = (case py_int lim (strip ra) of None \<Rightarrow> True | Some n \<Rightarrow> n \<le> 0)
       \<and> (strip ra = ''0'' \<longrightarrow> fst (parse_form_data lim g) = Inl InvalidAge)
       \<and> (hd (strip ra) = CHR ''-'' \<longrightarrow> fst (parse_form_data lim g) = Inl InvalidAge)"
proof -
  have result: "fst (parse_form_data lim g) =
      (case py_int lim (strip ra) of
         None \<Rightarrow> Inl InvalidAge
       | Some n \<Rightarrow>
           if n \<le> 0 then Inl InvalidAge
           else Inr \<lparr>first_name = strip rf, last_name = strip rl, email = strip re,
                     age = n, comments = strip (text_widget g)\<rparr>)"
    using assms(5-10) by (simp add: parse_form_data_present [OF assms(1-4)])
  have exact: "(fst (parse_form_data lim g) = Inl InvalidAge)
      = (case py_int lim (strip ra) of None \<Rightarrow> True | Some n \<Rightarrow> n \<le> 0)"
    by (simp add: result split: option.splits)
  have zero: "fst (parse_form_data lim g) = Inl InvalidAge" if "strip ra = ''0''"
    using that by (simp add: exact py_int_zero)
  have minus: "fst (parse_form_data lim g) = Inl InvalidAge" if "hd (strip ra) = CHR ''-''"
  proof -
    from that assms(8) obtain r where "strip ra = CHR ''-'' # r"
      by (cases "strip ra") auto
    then show ?thesis
      by (auto simp: exact dest: py_int_minus split: option.splits)
  qed
  from exact zero minus show ?thesis
    by blast
qed

theorem invalid_age_witness:
  "fst (parse_form_data 4300 scenario_B) = Inl InvalidAge
   \<and> fst (parse_form_data 4300 (filled_form ''Anna'' ''Muster'' ''anna@example.com'' ''0'' []))
       = Inl InvalidAge
   \<and> fst (parse_form_data 4300 (filled_form ''Anna'' ''Muster'' ''anna@example.com'' ''abc'' []))
       = Inl InvalidAge
   \<and> fst (parse_form_data 4300 scenario_A) \<noteq> Inl InvalidAge"
proof -
  let ?minus = "filled_form ''Anna'' ''Muster'' ''anna@example.com'' ''-5'' []"
  let ?zero = "filled_form ''Anna'' ''Muster'' ''anna@example.com'' ''0'' []"
  let ?text = "filled_form ''Anna'' ''Muster'' ''anna@example.com'' ''abc'' []"
  let ?good = "filled_form ''Anna'' ''Muster'' ''anna@example.com'' ''30'' []"
  have present: "strip ''Anna'' \<noteq> []" "strip ''Muster'' \<noteq> []"
    "strip ''anna@example.com'' \<noteq> []"
    by (simp_all add: strip_def isspace_def)
  have mail: "CHR ''@'' \<in> set (strip ''anna@example.com'')"
    "CHR ''.'' \<in> set (strip ''anna@example.com'')"
    by (simp_all add: strip_def isspace_def)
  have ages: "strip ''-5'' = ''-5''" "strip ''0'' = ''0''" "strip ''abc'' = ''abc''"
    "strip ''30'' = ''30''"
    by (simp_all add: strip_def isspace_def)
  have nonempty: "strip ''-5'' \<noteq> []" "strip ''0'' \<noteq> []" "strip ''abc'' \<noteq> []"
    "strip ''30'' \<noteq> []"
    by (simp_all add: ages)
  have parses: "py_int 4300 ''abc'' = None" "py_int 4300 ''30'' = Some 30"
    by (simp_all add: py_int_def to_ascii_def c_isspace_def digit_val_def digits_value_def)
  have "fst (parse_form_data 4300 scenario_B) = Inl InvalidAge"
    unfolding scenario_B_def
    using invalid_age_iff [of ?minus, OF filled_form_simps(1-4) present nonempty(1) mail, of 4300]
    by (simp add: ages)
  moreover have "fst (parse_form_data 4300 ?zero) = Inl InvalidAge"
    using invalid_age_iff [of ?zero, OF filled_form_simps(1-4) present nonempty(2) mail, of 4300]
    by (simp add: ages)
  moreover have "fst (parse_form_data 4300 ?text) = Inl InvalidAge"
    using invalid_age_iff [of ?text, OF filled_form_simps(1-4) present nonempty(3) mail, of 4300]
    by (simp add: ages parses)
  moreover have "fst (parse_form_data 4300 scenario_A) \<noteq> Inl InvalidAge"
    unfolding scenario_A_def
    using invalid_age_iff [of ?good, OF filled_form_simps(1-4) present nonempty(4) mail, of 4300]
    by (simp add: ages parses)
  ultimately show ?thesis
    by blast
qed

text \<open>
  Claim C5. When the three rules pass (the four required fields are non-empty after
  trimming, the trimmed e-mail has \<open>@\<close> and a dot, and \<open>int\<close> gives a positive value for
  the trimmed age text), validation returns the record of the trimmed first name, last
  name, e-mail and comments and of the parsed age. The raw first name \<open>"  Anna  "\<close> is
  stored as \<open>"Anna"\<close>, and an empty comments widget gives empty comments.
\<close>
theorem success_record_trimmed:
  assumes "variables g ''Vorname'' = Some rf" and "variables g ''Nachname'' = Some rl"
    and "variables g ''E-Mail'' = Some re" and "variables g ''Alter'' = Some ra"
    and "strip rf \<noteq> []" and "strip rl \<noteq> []" and "strip re \<noteq> []" and "strip ra \<noteq> []"
    and "CHR ''@'' \<in> set (strip re)" and "CHR ''.'' \<in> set (strip re)"
    and "py_int lim (strip ra) = Some n" and "0 < n"
  shows "fst (parse_form_data lim g) =
           Inr \<lparr>first_name = strip rf, last_name = strip rl, email = strip re,
                 age = n, comments = strip (text_widget g)\<rparr>
       \<and> strip ''  Anna  '' = ''Anna''
       \<and> (text_widget g = [] \<longrightarrow> comments (projr (fst (parse_form_data lim g))) = [])"
  using assms(5-12)
  by (simp add: parse_form_data_present [OF assms(1-4)] strip_Anna strip_Nil)

theorem success_record_trimmed_witness:
  "fst (parse_form_data 4300
      (filled_form ''  Anna  '' ''Muster'' '' anna@example.com'' ''30 '' []))
     = Inr \<lparr>first_name = ''Anna'', last_name = ''Muster'', email = ''anna@example.com'',
            age = 30, comments = []\<rparr>"
proof -
  let ?g = "filled_form ''  Anna  '' ''Muster'' '' anna@example.com'' ''30 '' []"
  have trimmed: "strip ''  Anna  '' = ''Anna''" "strip ''Muster'' = ''Muster''"
    "strip '' anna@example.com'' = ''anna@example.com''" "strip ''30 '' = ''30''"
    "strip [] = []"
    by (simp_all add: strip_def isspace_def)
  have present: "strip ''  Anna  '' \<noteq> []" "strip ''Muster'' \<noteq> []"
    "strip '' anna@example.com'' \<noteq> []" "strip ''30 '' \<noteq> []"
    by (simp_all add: trimmed)
  have mail: "CHR ''@'' \<in> set (strip '' anna@example.com'')"
    "CHR ''.'' \<in> set (strip '' anna@example.com'')"
    by (simp_all add: trimmed)
  have parsed: "py_int 4300 (strip ''30 '') = Some 30"
    by (simp add: trimmed py_int_def to_ascii_def c_isspace_def digit_val_def digits_value_def)
  have positive: "(0::int) < 30"
    by simp
  from success_record_trimmed [of ?g, OF filled_form_simps(1-4) present mail parsed positive]
  show ?thesis
    by (simp add: trimmed filled_form_simps)
qed

text \<open>
  Claim C6. The result of validation is determined by the four raw fields and the
  comments: two states that agree on them (whatever else differs) give the same result,
  valid or not. Validation leaves the state as it found it, so validating again gives
  the same result.
\<close>
theorem parse_form_data_pure:
  assumes "variables g ''Vorname'' = variables g' ''Vorname''"
    and "variables g ''Nachname'' = variables g' ''Nachname''"
    and "variables g ''E-Mail'' = variables g' ''E-Mail''"
    and "variables g ''Alter'' = variables g' ''Alter''"
    and "text_widget g = text_widget g'"
  shows "fst (parse_form_data lim g) = fst (parse_form_data lim g')
       \<and> snd (parse_form_data lim g) = g
       \<and> fst (parse_form_data lim (snd (parse_form_data lim g))) = fst (parse_form_data lim g)"
  by (simp add: parse_form_data_state parse_form_data_unfold assms split: option.splits)

theorem parse_form_data_pure_witness:
  "fst (parse_form_data 4300 (scenario_A\<lparr>dialogs := [ShowError ''Fehler'' []]\<rparr>))
     = fst (parse_form_data 4300 scenario_A)
   \<and> snd (parse_form_data 4300 scenario_A) = scenario_A
   \<and> fst (parse_form_data 4300 (snd (parse_form_data 4300 scenario_A)))
     = Inr \<lparr>first_name = ''Anna'', last_name = ''Muster'', email = ''anna@example.com'',
            age = 30, comments = []\<rparr>"
  using parse_form_data_pure [of "scenario_A\<lparr>dialogs := [ShowError ''Fehler'' []]\<rparr>" scenario_A 4300]
    parse_form_data_pure [of scenario_A scenario_A 4300]
  by (simp add: parse_scenario_A)

text \<open>
  Claim C7. When validation fails with a \<open>ValueError\<close>, \<open>handle_submit\<close> does nothing
  but show the error dialog with the message: the four variables and the comments
  widget keep their contents, and the form is not reset.
\<close>
theorem handle_submit_failure_keeps_fields:
  assumes "fst (parse_form_data lim g) = Inl (ValueError msg)"
  shows "handle_submit lim g = showerror ''Fehler'' msg g
       \<and> fst (handle_submit lim g) = Inr ()
       \<and> variables (snd (handle_submit lim g)) = variables g
       \<and> text_widget (snd (handle_submit lim g)) = text_widget g
       \<and> dialogs (snd (handle_submit lim g)) = dialogs g @ [ShowError ''Fehler'' msg]"
proof -
  from assms have "parse_form_data lim g = (Inl (ValueError msg), g)"
    by (simp add: prod_eq_iff parse_form_data_state)
  then have "handle_submit lim g = showerror ''Fehler'' msg g"
    by (simp add: handle_submit_def)
  then show ?thesis
    by (simp add: showerror_def)
qed

theorem handle_submit_failure_witness:
  "handle_submit 4300 scenario_B
     = (Inr (), scenario_B\<lparr>dialogs := [ShowError ''Fehler'' ''Alter muss eine positive Zahl sein.'']\<rparr>)
   \<and> variables (snd (handle_submit 4300 scenario_B)) ''Alter'' = Some ''-5''"
proof -
  have "fst (parse_form_data 4300 scenario_B) = Inl (ValueError ''Alter muss eine positive Zahl sein.'')"
    by (simp add: parse_scenario_B InvalidAge_def)
  from handle_submit_failure_keeps_fields [OF this] show ?thesis
    by (simp add: showerror_def scenario_B_def filled_form_def)
qed

text \<open>
  Claim C8. After a successful validation \<open>handle_submit\<close> shows the confirmation and
  then runs \<open>reset_form\<close>: the four entries and the comments widget are empty
  afterwards. \<open>reset_form\<close> on its own, from any state \<open>h\<close>, sets every variable of the
  dictionary to the empty string and empties the comments widget.
\<close>
theorem handle_submit_success_resets:
  assumes "fst (parse_form_data lim g) = Inr d"
  shows "handle_submit lim g = reset_form (snd (showinfo ''Erfolg'' (success_message d) g))
       \<and> fst (handle_submit lim g) = Inr ()
       \<and> variables (snd (handle_submit lim g)) ''Vorname'' = Some []
       \<and> variables (snd (handle_submit lim g)) ''Nachname'' = Some []
       \<and> variables (snd (handle_submit lim g)) ''E-Mail'' = Some []
       \<and> variables (snd (handle_submit lim g)) ''Alter'' = Some []
       \<and> text_widget (snd (handle_submit lim g)) = []
       \<and> dialogs (snd (handle_submit lim g))
           = dialogs g @ [ShowInfo ''Erfolg'' (success_message d)]
       \<and> fst (reset_form h) = Inr ()
       \<and> (\<forall>label\<in>dom (variables h). variables (snd (reset_form h)) label = Some [])
       \<and> dom (variables (snd (reset_form h))) = dom (variables h)
       \<and> text_widget (snd (reset_form h)) = []
       \<and> dialogs (snd (reset_form h)) = dialogs h"
proof -
  from assms have "parse_form_data lim g = (Inr d, g)"
    by (simp add: prod_eq_iff parse_form_data_state)
  then have submit: "handle_submit lim g
      = reset_form (snd (showinfo ''Erfolg'' (success_message d) g))"
    by (simp add: handle_submit_def then_action_def showinfo_def)
  from parse_form_data_Inr_keys [OF assms]
  obtain rf rl re ra where keys: "variables g ''Vorname'' = Some rf"
    "variables g ''Nachname'' = Some rl" "variables g ''E-Mail'' = Some re"
    "variables g ''Alter'' = Some ra"
    by auto
  have after: "variables (snd (handle_submit lim g)) ''Vorname'' = Some []"
    "variables (snd (handle_submit lim g)) ''Nachname'' = Some []"
    "variables (snd (handle_submit lim g)) ''E-Mail'' = Some []"
    "variables (snd (handle_submit lim g)) ''Alter'' = Some []"
    "text_widget (snd (handle_submit lim g)) = []"
    "dialogs (snd (handle_submit lim g)) = dialogs g @ [ShowInfo ''Erfolg'' (success_message d)]"
    "fst (handle_submit lim g) = Inr ()"
    by (simp_all add: submit reset_form_result showinfo_def keys)
  have alone: "fst (reset_form h) = Inr ()"
    "\<forall>label\<in>dom (variables h). variables (snd (reset_form h)) label = Some []"
    "dom (variables (snd (reset_form h))) = dom (variables h)"
    "text_widget (snd (reset_form h)) = []"
    "dialogs (snd (reset_form h)) = dialogs h"
    by (auto simp: reset_form_result)
  from submit after alone show ?thesis
    by simp
qed

theorem handle_submit_success_witness:
  "variables (snd (handle_submit 4300 scenario_A)) ''Vorname'' = Some []
   \<and> variables (snd (handle_submit 4300 scenario_A)) ''E-Mail'' = Some []
   \<and> text_widget (snd (handle_submit 4300 scenario_A)) = []
   \<and> variables (snd (reset_form scenario_C)) ''E-Mail'' = Some []
   \<and> text_widget (snd (reset_form (filled_form ''Anna'' [] [] [] ''Hallo''))) = []"
proof -
  have ok: "fst (parse_form_data 4300 scenario_A)
      = Inr \<lparr>first_name = ''Anna'', last_name = ''Muster'', email = ''anna@example.com'',
             age = 30, comments = []\<rparr>"
    by (simp add: parse_scenario_A)
  have key: "''E-Mail'' \<in> dom (variables scenario_C)"
    by (simp add: scenario_C_def filled_form_def)
  from handle_submit_success_resets [OF ok, of scenario_C]
    handle_submit_success_resets [OF ok, of "filled_form ''Anna'' [] [] [] ''Hallo''"] key
  show ?thesis
    by blast
qed

text \<open>
  Claim C9. Scenario A: first name \<open>Anna\<close>, last name \<open>Muster\<close>, e-mail
  \<open>anna@example.com\<close>, age text \<open>30\<close> and no comments validate to the record
  \<open>(Anna, Muster, anna@example.com, 30, "")\<close>.
\<close>
theorem scenario_A_result:
  "variables scenario_A ''Vorname'' = Some ''Anna''
   \<and> variables scenario_A ''Nachname'' = Some ''Muster''
   \<and> variables scenario_A ''E-Mail'' = Some ''anna@example.com''
   \<and> variables scenario_A ''Alter'' = Some ''30''
   \<and> text_widget scenario_A = []
   \<and> fst (parse_form_data lim scenario_A)
       = Inr \<lparr>first_name = ''Anna'', last_name = ''Muster'', email = ''anna@example.com'',
              age = 30, comments = []\<rparr>"
  by (simp add: parse_scenario_A) (simp add: scenario_A_def filled_form_def)

theorem scenario_A_result_witness:
  "age (projr (fst (parse_form_data 4300 scenario_A))) = 30
   \<and> first_name (projr (fst (parse_form_data 4300 scenario_A))) = ''Anna''"
  using scenario_A_result [of 4300] by simp

text \<open>
  Claim C10. Two states that agree on the four required fields and differ in the
  comments (or anything else) fail with the same error or succeed together; on success
  the two records differ in the comments only, which are the trimmed content of the
  comments widget. So no comments value can make validation fail.
\<close>
theorem comments_do_not_influence_outcome:
  assumes "variables g ''Vorname'' = variables g' ''Vorname''"
    and "variables g ''Nachname'' = variables g' ''Nachname''"
    and "variables g ''E-Mail'' = variables g' ''E-Mail''"
    and "variables g ''Alter'' = variables g' ''Alter''"
  shows "(\<forall>e. (fst (parse_form_data lim g) = Inl e) = (fst (parse_form_data lim g') = Inl e))
       \<and> (\<forall>d. fst (parse_form_data lim g) = Inr d
             \<longrightarrow> fst (parse_form_data lim g') = Inr (d\<lparr>comments := strip (text_widget g')\<rparr>)
                 \<and> comments d = strip (text_widget g))"
proof (cases "fst (parse_form_data lim g')")
  case (Inl e')
  with parse_form_data_agree [OF assms, of lim] show ?thesis
    by simp
next
  case (Inr d')
  then have "comments d' = strip (text_widget g')"
    by (rule parse_form_data_comments)
  with Inr parse_form_data_agree [OF assms, of lim] show ?thesis
    by auto
qed

theorem comments_do_not_influence_outcome_witness:
  "fst (parse_form_data 4300 (filled_form ''Anna'' ''Muster'' ''anna@example.com'' ''30'' ''Hallo''))
     = Inr \<lparr>first_name = ''Anna'', last_name = ''Muster'', email = ''anna@example.com'',
            age = 30, comments = ''Hallo''\<rparr>
   \<and> fst (parse_form_data 4300
        (filled_form ''Anna'' ''Muster'' ''anna@example.com'' ''-5'' ''@@ . 12 _''))
     = Inl InvalidAge"
proof -
  let ?a = "filled_form ''Anna'' ''Muster'' ''anna@example.com'' ''30'' ''Hallo''"
  let ?b = "filled_form ''Anna'' ''Muster'' ''anna@example.com'' ''-5'' ''@@ . 12 _''"
  have a: "fst (parse_form_data 4300 scenario_A)
      = Inr \<lparr>first_name = ''Anna'', last_name = ''Muster'', email = ''anna@example.com'',
             age = 30, comments = []\<rparr>"
    by (simp add: parse_scenario_A)
  have b: "fst (parse_form_data 4300 scenario_B) = Inl InvalidAge"
    by (simp add: parse_scenario_B)
  have hallo: "strip ''Hallo'' = ''Hallo''"
    by (simp add: strip_def isspace_def)
  have "fst (parse_form_data 4300 ?a)
      = Inr \<lparr>first_name = ''Anna'', last_name = ''Muster'', email = ''anna@example.com'',
             age = 30, comments = ''Hallo''\<rparr>"
    using comments_do_not_influence_outcome [of scenario_A ?a 4300] a
    by (simp add: scenario_A_def filled_form_simps hallo)
  moreover have "fst (parse_form_data 4300 ?b) = Inl InvalidAge"
    using comments_do_not_influence_outcome [of scenario_B ?b 4300] b
    by (simp add: scenario_B_def filled_form_simps)
  ultimately show ?thesis
    by blast
qed

end
